theory Spec2Isabelle
  imports Main "HOL-Library.Char_ord" "HOL-Library.List_Lexorder"
begin

section \<open>The build orchestrator of jspm-cli (src/build/index.ts)\<close>

text \<open>
  The file exports one operation, \<^verbatim>\<open>build (input, opts)\<close>. Its body is embedded block by
  block, in source order: defaulting of the format (lines 47-48), the initial extension
  (line 50), the scan of a list input (lines 53-73), the package boundary inspection
  (lines 76-89), the bundler options (lines 91-103), the watch branch (lines 105-126) and
  the one-shot branch with its graph summary (lines 128-160). Everything build does
  beyond computing values (prints, calls of the bundler, of the file system and of the
  resolver) is recorded, in order, in a list of effects; the way the call ends (return,
  exception, suspension on a promise that nobody settles) is a value.
\<close>

subsection \<open>Strings of the runtime\<close>

text \<open>The decimal rendering of a non-negative integer, as \<^verbatim>\<open>basename + i\<close> produces it.\<close>

definition digit_char :: "nat \<Rightarrow> char" where
  "digit_char d = char_of (48 + d)"

fun string_of_nat :: "nat \<Rightarrow> string" where
  "string_of_nat n =
     (if n < 10 then [digit_char n]
      else string_of_nat (n div 10) @ [digit_char (n mod 10)])"

declare string_of_nat.simps [simp del]

text \<open>\<^verbatim>\<open>s.endsWith(t)\<close>.\<close>

definition endsWith :: "string \<Rightarrow> string \<Rightarrow> bool" where
  "endsWith s t = (length t \<le> length s \<and> drop (length s - length t) s = t)"

text \<open>\<^verbatim>\<open>s.startsWith(t)\<close>.\<close>

definition startsWith :: "string \<Rightarrow> string \<Rightarrow> bool" where
  "startsWith s t = (take (length t) s = t)"

text \<open>\<^verbatim>\<open>s.lastIndexOf(c)\<close> for a one-character pattern: the last position of c, or -1.\<close>

fun lastIndexOf :: "string \<Rightarrow> char \<Rightarrow> int" where
  "lastIndexOf [] c = -1"
| "lastIndexOf (x # xs) c =
     (let r = lastIndexOf xs c
      in if 0 \<le> r then r + 1 else if x = c then 0 else -1)"

text \<open>\<^verbatim>\<open>s.substr(0, n)\<close>: a length that is negative gives the empty string.\<close>

definition substr0 :: "string \<Rightarrow> int \<Rightarrow> string" where
  "substr0 s n = take (nat n) s"

text \<open>\<^verbatim>\<open>xs.join(sep)\<close>.\<close>

fun join :: "string \<Rightarrow> string list \<Rightarrow> string" where
  "join sep [] = []"
| "join sep [x] = x"
| "join sep (x # y # ys) = x @ sep @ join sep (y # ys)"

text \<open>A template literal renders a missing value as the word undefined.\<close>

definition js_string :: "string option \<Rightarrow> string" where
  "js_string v = (case v of None \<Rightarrow> ''undefined'' | Some s \<Rightarrow> s)"

text \<open>Truthiness of an optional boolean and of an optional string.\<close>

definition truthy :: "bool option \<Rightarrow> bool" where
  "truthy v = (v = Some True)"

definition truthy_string :: "string option \<Rightarrow> bool" where
  "truthy_string v = (case v of None \<Rightarrow> False | Some s \<Rightarrow> s \<noteq> [])"

subsection \<open>Plain objects used as dictionaries\<close>

text \<open>
  \<^verbatim>\<open>inputObj = {}\<close> is a plain object: its own properties are kept as an association list
  in the order of their creation, and it inherits the properties of
  \<^verbatim>\<open>Object.prototype\<close>. The operator \<^verbatim>\<open>in\<close> answers for both. The list is read by
  key only (\<open>map_of\<close>, membership): the order of creation is not the order in which the
  object enumerates its keys, which has the keys that are array indices, such as 0,
  first.
\<close>

type_synonym js_object = "(string \<times> string) list"

definition object_prototype_keys :: "string list" where
  "object_prototype_keys =
     [''constructor'', ''__defineGetter__'', ''__defineSetter__'', ''hasOwnProperty'',
      ''__lookupGetter__'', ''__lookupSetter__'', ''isPrototypeOf'',
      ''propertyIsEnumerable'', ''toString'', ''valueOf'', ''__proto__'',
      ''toLocaleString'']"

definition js_in :: "string \<Rightarrow> js_object \<Rightarrow> bool" where
  "js_in k obj = (k \<in> set (map fst obj) \<or> k \<in> set object_prototype_keys)"

text \<open>\<^verbatim>\<open>obj[k] = v\<close>: an own property is overwritten in place, a new one is added last.\<close>

fun js_assign :: "js_object \<Rightarrow> string \<Rightarrow> string \<Rightarrow> js_object" where
  "js_assign [] k v = [(k, v)]"
| "js_assign ((k', v') # obj) k v =
     (if k' = k then (k, v) # obj else (k', v') # js_assign obj k v)"

subsection \<open>Options and inputs\<close>

datatype module_format = Esm | Cjs | Amd | System | Iife | Umd

datatype build_target = TargetFlag bool | TargetList "string list"

typedecl js_any

text \<open>
  \<^verbatim>\<open>interface BuildOptions\<close>. An optional field is an option: None is the absent key.
  For \<^verbatim>\<open>mjs\<close> the source asks both for the key (\<^verbatim>\<open>'mjs' in opts\<close>) and for the value.
\<close>

record BuildOptions =
  log :: bool
  projectPath :: "string option"
  removeDir :: "bool option"
  env :: "js_any option"
  sourcemap :: "bool option"
  mjs :: "bool option"
  out :: "string option"
  format :: "module_format option"
  external :: "string list option"
  globals :: "(string \<times> string) list option"
  banner :: "string option"
  showGraph :: "bool option"
  watch :: "bool option"
  target :: "build_target option"
  inlineDeps :: "bool option"

text \<open>\<^verbatim>\<open>input: string[] | Record<string,string>\<close>.\<close>

datatype build_input = InputList "string list" | InputRecord js_object

text \<open>The paths of a list input; a name to path record has none.\<close>

definition list_paths :: "build_input \<Rightarrow> string list" where
  "list_paths input = (case input of InputList ms \<Rightarrow> ms | InputRecord obj \<Rightarrow> [])"

subsection \<open>Collaborators\<close>

datatype js_error = ReferenceError string | TypeError string | Rejected string

text \<open>The argument of \<^verbatim>\<open>jspmRollup\<close> (lines 97-102).\<close>

record PluginOptions =
  plugin_projectPath :: string
  plugin_inlineDeps :: bool
  plugin_externals :: "string list option"
  plugin_env :: "js_any option"

text \<open>
  An output specification, as given to \<^verbatim>\<open>build.write\<close> (lines 133-142) and as stored in
  \<^verbatim>\<open>rollupOptions.output\<close> (lines 106-113). A key that the object literal does not have
  is None.
\<close>

record OutputOptions =
  entryFileNames :: "string option"
  chunkFileNames :: "string option"
  exports :: string
  output_dir :: "string option"
  output_format :: "module_format option"
  output_sourcemap :: "bool option"
  indent :: bool
  output_banner :: "string option"

text \<open>
  \<^verbatim>\<open>rollupOptions\<close> (lines 91-103); \<^verbatim>\<open>onwarn\<close> is the constant function that does nothing
  and is left out.
\<close>

record RollupOptions =
  rollup_input :: js_object
  rollup_dir :: "string option"
  rollup_external :: "string list option"
  rollup_sourcemap :: "bool option"
  rollup_plugins :: "PluginOptions list"
  rollup_output :: "OutputOptions option"

text \<open>
  An element of the \<^verbatim>\<open>output\<close> that \<^verbatim>\<open>build.write\<close> resolves to, read as a
  \<^verbatim>\<open>rollup.OutputChunk\<close>: its name, its \<^verbatim>\<open>imports\<close> and the keys of its \<^verbatim>\<open>modules\<close>.
\<close>

record OutputChunk =
  chunk_name :: string
  chunk_imports :: "string list"
  chunk_modules :: "string list"

text \<open>The manifest that \<^verbatim>\<open>readPackageConfigSync\<close> returns; only its \<^verbatim>\<open>type\<close> is read.\<close>

record PackageConfig =
  pjson_type :: "string option"

text \<open>
  What build takes from outside this file: the path module and the process of the
  platform, the resolver (\<^verbatim>\<open>utils\<close> of @jspm/resolve), the styling helpers of
  ../utils/common, the bundler, rimraf and mkdirp. A collaborator that can fail returns
  the exception it throws or rejects with. \<^verbatim>\<open>global_name\<close> is the binding that the free
  identifier \<^verbatim>\<open>name\<close> of line 152 finds in the global scope, None when there is none.
\<close>

record runtime =
  path_basename :: "string \<Rightarrow> string"
  path_resolve :: "string \<Rightarrow> string"
  path_relative :: "string \<Rightarrow> string \<Rightarrow> string"
  path_sep :: string
  process_cwd :: string
  getPackageBoundarySync :: "string \<Rightarrow> js_error + string option"
  readPackageConfigSync :: "string \<Rightarrow> js_error + PackageConfig"
  bold :: "string \<Rightarrow> string"
  highlight :: "string \<Rightarrow> string"
  replace_winSep :: "string \<Rightarrow> string"
  global_name :: "string option"
  rollup_watch :: "RollupOptions \<Rightarrow> js_error option"
  rollup_rollup :: "RollupOptions \<Rightarrow> js_error option"
  bundle_write :: "RollupOptions \<Rightarrow> OutputOptions \<Rightarrow> js_error + OutputChunk list"
  rimraf_sync :: "string option \<Rightarrow> js_error option"
  mkdirp_sync :: "string option \<Rightarrow> js_error option"

subsection \<open>Effects and results of a call\<close>

datatype effect =
    UiWarn string
  | UiInfo string
  | UiOk string
  | ConsoleLog string
  | GetPackageBoundarySync string
  | ReadPackageConfigSync string
  | RollupWatch RollupOptions
  | WatcherOn
  | RollupRollup RollupOptions
  | RimrafSync "string option"
  | MkdirpSync "string option"
  | BundleWrite OutputOptions

text \<open>
  The effects that only the one-shot path has: the one-shot call of the bundler, removing
  and creating the directory, the write, the success message of line 144 and the lines
  of the graph summary.
\<close>

fun one_shot_effect :: "effect \<Rightarrow> bool" where
  "one_shot_effect (RollupRollup ro) = True"
| "one_shot_effect (RimrafSync d) = True"
| "one_shot_effect (MkdirpSync d) = True"
| "one_shot_effect (BundleWrite spec) = True"
| "one_shot_effect (UiOk s) = True"
| "one_shot_effect (ConsoleLog s) = True"
| "one_shot_effect x = False"

text \<open>
  Returned: the promise of build resolves. Threw: it rejects. Suspended: the call
  waits at line 125 for a promise whose resolve and reject functions are dropped.
\<close>

datatype outcome = Returned | Threw js_error | Suspended

text \<open>
  One call of build: how it ended, what it did, the value of the local \<^verbatim>\<open>ext\<close> and the
  caller's options object at that point.
\<close>

record build_run =
  outcome :: outcome
  effects :: "effect list"
  ext :: string
  opts_after :: BuildOptions

subsection \<open>Lines 61-72: names for the inputs of a list\<close>

text \<open>
  Decimal numerals are never empty and differ for different numbers; the loop that looks
  for an unused name ends for this reason.
\<close>

lemma digit_char_inj: "a < 10 \<Longrightarrow> b < 10 \<Longrightarrow> digit_char a = digit_char b \<Longrightarrow> a = b"
proof -
  assume a: "a < 10" and b: "b < 10" and e: "digit_char a = digit_char b"
  have "char_of (48 + a) = (char_of (48 + b) :: char)"
    using e by (simp only: digit_char_def)
  moreover have "48 + a \<in> {0..<256}" "48 + b \<in> {0..<256}"
    using a b by simp_all
  ultimately have "48 + a = 48 + b"
    using inj_on_char_of_nat by (rule inj_onD [rotated])
  then show "a = b" by simp
qed

lemma string_of_nat_length: "0 < length (string_of_nat n)"
  by (subst string_of_nat.simps) simp

lemma string_of_nat_nonempty: "string_of_nat n \<noteq> []"
  using string_of_nat_length [of n] by auto

lemma string_of_nat_short: "length (string_of_nat n) = Suc 0 \<longleftrightarrow> n < 10"
proof (cases "n < 10")
  case True
  then show ?thesis by (subst string_of_nat.simps) simp
next
  case False
  then have "length (string_of_nat n) = length (string_of_nat (n div 10)) + 1"
    by (subst string_of_nat.simps) simp
  with False string_of_nat_length [of "n div 10"] show ?thesis by simp
qed

lemma string_of_nat_inj: "string_of_nat n = string_of_nat m \<Longrightarrow> n = m"
proof (induction n arbitrary: m rule: string_of_nat.induct)
  case (1 n)
  show ?case
  proof (cases "n < 10")
    case True
    then have "length (string_of_nat m) = Suc 0"
      using "1.prems" string_of_nat_short [of n] by simp
    then have m: "m < 10" by (simp add: string_of_nat_short)
    from True m "1.prems" have "digit_char n = digit_char m"
      by (simp add: string_of_nat.simps [of n] string_of_nat.simps [of m])
    with True m show ?thesis by (rule digit_char_inj)
  next
    case False
    then have "length (string_of_nat m) \<noteq> Suc 0"
      using "1.prems" string_of_nat_short [of n] by simp
    then have m: "\<not> m < 10" by (simp add: string_of_nat_short)
    from False m "1.prems"
    have e: "string_of_nat (n div 10) @ [digit_char (n mod 10)] =
             string_of_nat (m div 10) @ [digit_char (m mod 10)]"
      by (simp add: string_of_nat.simps [of n] string_of_nat.simps [of m])
    then have "string_of_nat (n div 10) = string_of_nat (m div 10)" by simp
    with False have d: "n div 10 = m div 10" by (rule "1.IH")
    from e have "digit_char (n mod 10) = digit_char (m mod 10)" by simp
    then have "n mod 10 = m mod 10" by (intro digit_char_inj) simp_all
    with d show ?thesis by (metis div_mult_mod_eq)
  qed
qed

lemma finite_numbered_keys: "finite {j. b @ string_of_nat j \<in> set ks}"
proof -
  have "inj (\<lambda>j. b @ string_of_nat j)"
    by (rule injI) (simp add: string_of_nat_inj)
  then have "finite ((\<lambda>j. b @ string_of_nat j) -` set ks)"
    by (intro finite_vimageI) simp_all
  then show ?thesis by (simp add: vimage_def)
qed

text \<open>
  Lines 67-70: \<^verbatim>\<open>let inputName = basename; let i = 0;
  while (inputName in inputObj) inputName = basename + i++;\<close>
  The function is the loop from a state \<open>(inputName, i)\<close>; it returns the final inputName.
\<close>

function unused_name :: "js_object \<Rightarrow> string \<Rightarrow> string \<Rightarrow> nat \<Rightarrow> string" where
  "unused_name inputObj basename inputName i =
     (if js_in inputName inputObj
      then unused_name inputObj basename (basename @ string_of_nat i) (i + 1)
      else inputName)"
  by pat_completeness auto
termination
proof (relation "measure (\<lambda>(obj, b, nm, i).
         (if js_in nm obj then 1 else 0) +
         card {j. i \<le> j \<and> js_in (b @ string_of_nat j) obj})")
  show "wf (measure (\<lambda>(obj, b, nm, i).
         (if js_in nm obj then 1 else 0) +
         card {j. i \<le> j \<and> js_in (b @ string_of_nat j) obj}))"
    by simp
next
  fix inputObj :: js_object and basename inputName :: string and i :: nat
  assume taken: "js_in inputName inputObj"
  let ?S = "\<lambda>k. {j. k \<le> j \<and> js_in (basename @ string_of_nat j) inputObj}"
  have fin: "finite (?S i)"
  proof (rule finite_subset)
    show "?S i \<subseteq> {j. basename @ string_of_nat j \<in> set (map fst inputObj @ object_prototype_keys)}"
      by (auto simp: js_in_def)
    show "finite {j. basename @ string_of_nat j \<in> set (map fst inputObj @ object_prototype_keys)}"
      by (rule finite_numbered_keys)
  qed
  have split: "?S i = (if js_in (basename @ string_of_nat i) inputObj then {i} else {}) \<union> ?S (i + 1)"
    by (auto simp: Suc_le_eq order_le_less)
  have "(if js_in (basename @ string_of_nat i) inputObj then 1 else 0) + card (?S (i + 1)) = card (?S i)"
  proof (cases "js_in (basename @ string_of_nat i) inputObj")
    case True
    have "i \<notin> ?S (i + 1)" by simp
    moreover have "finite (?S (i + 1))" using fin by (rule rev_finite_subset) auto
    moreover have "?S i = insert i (?S (i + 1))" using True split by auto
    ultimately show ?thesis using True by simp
  next
    case False
    then show ?thesis using split by simp
  qed
  with taken
  show "((inputObj, basename, basename @ string_of_nat i, i + 1), (inputObj, basename, inputName, i))
        \<in> measure (\<lambda>(obj, b, nm, i).
         (if js_in nm obj then 1 else 0) +
         card {j. i \<le> j \<and> js_in (b @ string_of_nat j) obj})"
    by simp
qed

declare unused_name.simps [simp del]

text \<open>
  Lines 62-72, one round of \<^verbatim>\<open>for (const module of input)\<close>: the state is the pair of
  \<^verbatim>\<open>ext\<close> and \<^verbatim>\<open>inputObj\<close>.
\<close>

definition entry_basename :: "runtime \<Rightarrow> string \<Rightarrow> string" where
  "entry_basename E module =
     (let basename = path_basename E module
      in substr0 basename (lastIndexOf basename CHR ''.''))"

definition scan_module :: "runtime \<Rightarrow> BuildOptions \<Rightarrow> string \<times> js_object \<Rightarrow> string \<Rightarrow> string \<times> js_object" where
  "scan_module E opts st module =
     (let ext1 = (if format opts = Some Esm \<and> mjs opts = None \<and> endsWith module ''.mjs''
                  then ''.mjs'' else fst st);
          basename = entry_basename E module;
          inputName = unused_name (snd st) basename basename 0
      in (ext1, js_assign (snd st) inputName module))"

definition scan_inputs :: "runtime \<Rightarrow> BuildOptions \<Rightarrow> string \<Rightarrow> string list \<Rightarrow> string \<times> js_object" where
  "scan_inputs E opts ext0 ms = foldl (scan_module E opts) (ext0, []) ms"

subsection \<open>Lines 47-50: the default format and the initial extension\<close>

text \<open>\<^verbatim>\<open>if (!opts.format) opts.format = 'esm';\<close> writes into the caller's object.\<close>

definition default_format :: "BuildOptions \<Rightarrow> BuildOptions" where
  "default_format opts = (if format opts = None then opts\<lparr>format := Some Esm\<rparr> else opts)"

text \<open>\<^verbatim>\<open>let ext = opts.mjs ? '.mjs' : '.js';\<close>\<close>

definition initial_ext :: "BuildOptions \<Rightarrow> string" where
  "initial_ext opts = (if truthy (mjs opts) then ''.mjs'' else ''.js'')"

subsection \<open>Lines 76-89: the package boundary of the output directory\<close>

text \<open>
  The result is the exception that ended the block, if any, the value of \<^verbatim>\<open>ext\<close> after
  it and the effects of the block. \<^verbatim>\<open>path.resolve\<close> throws a TypeError for an argument
  that is not a string.
\<close>

definition boundary_warning :: "runtime \<Rightarrow> string \<Rightarrow> string" where
  "boundary_warning E boundary =
     (let pjsonPath = path_relative E (process_cwd E) (boundary @ ''/package.json'');
          pjsonPath = (if \<not> startsWith pjsonPath (''..'' @ path_sep E)
                       then ''.'' @ path_sep E @ pjsonPath else pjsonPath)
      in ''Output package scope at '' @ highlight E pjsonPath @ '' does not have a '' @
         bold E [CHR 0x22, CHR ''t'', CHR ''y'', CHR ''p'', CHR ''e'', CHR 0x22, CHR '':'', CHR '' '',
                 CHR 0x22, CHR ''m'', CHR ''o'', CHR ''d'', CHR ''u'', CHR ''l'', CHR ''e'', CHR 0x22] @
         '' boundary, so outputting mjs.'')"

definition package_boundary :: "runtime \<Rightarrow> BuildOptions \<Rightarrow> string \<Rightarrow> js_error option \<times> string \<times> effect list" where
  "package_boundary E opts ext0 =
     (if format opts = Some Esm \<and> mjs opts = None \<and> ext0 \<noteq> ''.mjs'' then
        (case out opts of
           None \<Rightarrow> (Some (TypeError ''The path argument must be of type string''), ext0, [])
         | Some dir \<Rightarrow>
             (let outdir = path_resolve E dir
              in case getPackageBoundarySync E (outdir @ ''/'') of
                   Inl e \<Rightarrow> (Some e, ext0, [GetPackageBoundarySync (outdir @ ''/'')])
                 | Inr None \<Rightarrow> (None, ext0, [GetPackageBoundarySync (outdir @ ''/'')])
                 | Inr (Some boundary) \<Rightarrow>
                     if boundary = [] then (None, ext0, [GetPackageBoundarySync (outdir @ ''/'')])
                     else
                       (case readPackageConfigSync E boundary of
                          Inl e \<Rightarrow>
                            (Some e, ext0,
                             [GetPackageBoundarySync (outdir @ ''/''), ReadPackageConfigSync boundary])
                        | Inr pjson \<Rightarrow>
                            if pjson_type pjson \<noteq> Some ''module'' then
                              (None, ''.mjs'',
                               [GetPackageBoundarySync (outdir @ ''/''), ReadPackageConfigSync boundary,
                                UiWarn (boundary_warning E boundary)])
                            else
                              (None, ext0,
                               [GetPackageBoundarySync (outdir @ ''/''),
                                ReadPackageConfigSync boundary]))))
      else (None, ext0, []))"

subsection \<open>Lines 91-103: the options of the bundler\<close>

definition rollupOptions :: "runtime \<Rightarrow> BuildOptions \<Rightarrow> js_object \<Rightarrow> RollupOptions" where
  "rollupOptions E opts inputObj =
     \<lparr>rollup_input = inputObj,
      rollup_dir = out opts,
      rollup_external = external opts,
      rollup_sourcemap = sourcemap opts,
      rollup_plugins =
        [\<lparr>plugin_projectPath =
            (if truthy_string (projectPath opts) then js_string (projectPath opts)
             else process_cwd E),
          plugin_inlineDeps = truthy (inlineDeps opts),
          plugin_externals = external opts,
          plugin_env = env opts\<rparr>],
      rollup_output = None\<rparr>"

subsection \<open>Lines 105-126: watch mode\<close>

text \<open>The object literal of lines 106-113.\<close>

definition watch_output :: "BuildOptions \<Rightarrow> OutputOptions" where
  "watch_output opts =
     \<lparr>entryFileNames = None,
      chunkFileNames = None,
      exports = ''named'',
      output_dir = out opts,
      output_format = format opts,
      output_sourcemap = sourcemap opts,
      indent = True,
      output_banner = banner opts\<rparr>"

text \<open>
  The listener of lines 116-123, as a step on the captured \<^verbatim>\<open>firstRun\<close>. The watcher
  calls it; build itself does not.
\<close>

datatype event_code = BUNDLE_START | BUNDLE_END | OTHER_CODE

definition on_event :: "runtime \<Rightarrow> BuildOptions \<Rightarrow> bool \<Rightarrow> event_code \<Rightarrow> bool \<times> effect list" where
  "on_event E opts firstRun code =
     (if firstRun then (False, [])
      else if code = BUNDLE_START then (firstRun, [UiInfo ''Rebuilding...''])
      else if code = BUNDLE_END then
        (firstRun, [UiOk (''Built into '' @ bold E (js_string (out opts)))])
      else (firstRun, []))"

text \<open>
  Lines 105-126 when \<^verbatim>\<open>opts.watch\<close> is truthy: the options get their \<^verbatim>\<open>output\<close>, the
  watcher is started, the listener is registered, and the call waits for a promise that
  is never settled.
\<close>

definition watch_mode :: "runtime \<Rightarrow> BuildOptions \<Rightarrow> RollupOptions \<Rightarrow> outcome \<times> effect list" where
  "watch_mode E opts ro =
     (let ro1 = ro\<lparr>rollup_output := Some (watch_output opts)\<rparr>
      in case rollup_watch E ro1 of
           Some e \<Rightarrow> (Threw e, [RollupWatch ro1])
         | None \<Rightarrow> (Suspended, [RollupWatch ro1, WatcherOn]))"

subsection \<open>Lines 128-160: one-shot mode\<close>

text \<open>The object literal of lines 133-142.\<close>

definition write_output :: "BuildOptions \<Rightarrow> string \<Rightarrow> OutputOptions" where
  "write_output opts ext0 =
     \<lparr>entryFileNames = Some (''[name]'' @ ext0),
      chunkFileNames = Some (''chunk-[hash]'' @ ext0),
      exports = ''named'',
      output_dir = out opts,
      output_format = format opts,
      output_sourcemap = sourcemap opts,
      indent = True,
      output_banner = banner opts\<rparr>"


text \<open>
  Lines 150-158 for one chunk, once the identifier \<^verbatim>\<open>name\<close> of line 152 has the value
  nm. The keys of \<^verbatim>\<open>entry.modules\<close> are distinct, so the comparison function of line 154
  sorts them in ascending order.
\<close>

definition chunk_report :: "runtime \<Rightarrow> string \<Rightarrow> OutputChunk \<Rightarrow> effect list" where
  "chunk_report E nm entry =
     (let deps = chunk_imports entry
      in ConsoleLog (bold E nm @ (if length deps \<noteq> 0 then '' imports '' else []) @
                     join '', '' (sort deps) @ '':'')
         # map (\<lambda>module. ConsoleLog
                  (''  '' @ replace_winSep E (path_relative E (process_cwd E) module)))
               (sort (chunk_modules entry))
         @ [ConsoleLog []])"

text \<open>
  Lines 149-159: in each round the template literal of line 152 first evaluates
  \<^verbatim>\<open>bold(name)\<close>; without a global binding of \<^verbatim>\<open>name\<close> this throws a ReferenceError.
\<close>

fun graph_report :: "runtime \<Rightarrow> OutputChunk list \<Rightarrow> js_error option \<times> effect list" where
  "graph_report E [] = (None, [])"
| "graph_report E (chunk # rest) =
     (case global_name E of
        None \<Rightarrow> (Some (ReferenceError ''name is not defined''), [])
      | Some nm \<Rightarrow>
          (let r = graph_report E rest in (fst r, chunk_report E nm chunk @ snd r)))"

text \<open>Lines 133-160: write the bundle and report.\<close>

definition write_and_report :: "runtime \<Rightarrow> BuildOptions \<Rightarrow> RollupOptions \<Rightarrow> string \<Rightarrow> outcome \<times> effect list" where
  "write_and_report E opts ro ext0 =
     (case bundle_write E ro (write_output opts ext0) of
        Inl e \<Rightarrow> (Threw e, [BundleWrite (write_output opts ext0)])
      | Inr output \<Rightarrow>
          (let done = BundleWrite (write_output opts ext0) #
                 (if log opts
                  then [UiOk (''Built into '' @ highlight E (js_string (out opts) @ ''/''))]
                  else [])
           in if truthy (showGraph opts) \<and> log opts then
                (let g = graph_report E output
                 in (case fst g of None \<Rightarrow> Returned | Some e \<Rightarrow> Threw e,
                     done @ ConsoleLog [] # snd g))
              else (Returned, done)))"

text \<open>Lines 128-132, then the rest.\<close>

definition one_shot :: "runtime \<Rightarrow> BuildOptions \<Rightarrow> RollupOptions \<Rightarrow> string \<Rightarrow> outcome \<times> effect list" where
  "one_shot E opts ro ext0 =
     (case rollup_rollup E ro of
        Some e \<Rightarrow> (Threw e, [RollupRollup ro])
      | None \<Rightarrow>
          if truthy (removeDir opts) then
            (case rimraf_sync E (out opts) of
               Some e \<Rightarrow> (Threw e, [RollupRollup ro, RimrafSync (out opts)])
             | None \<Rightarrow>
                 (case mkdirp_sync E (out opts) of
                    Some e \<Rightarrow>
                      (Threw e, [RollupRollup ro, RimrafSync (out opts), MkdirpSync (out opts)])
                  | None \<Rightarrow>
                      (let w = write_and_report E opts ro ext0
                       in (fst w,
                           [RollupRollup ro, RimrafSync (out opts), MkdirpSync (out opts)] @ snd w))))
          else
            (let w = write_and_report E opts ro ext0 in (fst w, RollupRollup ro # snd w)))"

subsection \<open>The whole call\<close>

text \<open>Lines 75-160, from the values of \<^verbatim>\<open>ext\<close> and \<^verbatim>\<open>inputObj\<close> that lines 52-73 leave.\<close>

definition build_from :: "runtime \<Rightarrow> BuildOptions \<Rightarrow> string \<Rightarrow> js_object \<Rightarrow> build_run" where
  "build_from E opts ext0 inputObj =
     (let b = package_boundary E opts ext0;
          ext1 = fst (snd b)
      in case fst b of
           Some e \<Rightarrow>
             \<lparr>outcome = Threw e, effects = snd (snd b), ext = ext1, opts_after = opts\<rparr>
         | None \<Rightarrow>
             (let ro = rollupOptions E opts inputObj;
                  r = (if truthy (watch opts) then watch_mode E opts ro
                       else one_shot E opts ro ext1)
              in \<lparr>outcome = fst r, effects = snd (snd b) @ snd r, ext = ext1,
                  opts_after = opts\<rparr>))"

text \<open>\<^verbatim>\<open>export async function build (input, opts)\<close>, lines 46-161.\<close>

definition build :: "runtime \<Rightarrow> build_input \<Rightarrow> BuildOptions \<Rightarrow> build_run" where
  "build E input opts0 =
     (let opts = default_format opts0;
          ext0 = initial_ext opts
      in case input of
           InputRecord inputObj \<Rightarrow> build_from E opts ext0 inputObj
         | InputList ms \<Rightarrow>
             if length ms = 0 then
               \<lparr>outcome = Returned, effects = [UiWarn ''No inputs provided to build.''],
                ext = ext0, opts_after = opts\<rparr>
             else
               (let s = scan_inputs E opts ext0 ms in build_from E opts (fst s) (snd s)))"

subsection \<open>A sample platform\<close>

text \<open>
  \<^verbatim>\<open>path.basename\<close> of a POSIX platform: the part after the last slash, trailing slashes
  dropped.
\<close>

definition posix_basename :: "string \<Rightarrow> string" where
  "posix_basename p =
     rev (takeWhile (\<lambda>c. c \<noteq> CHR ''/'') (dropWhile (\<lambda>c. c = CHR ''/'') (rev p)))"

text \<open>
  A POSIX platform with working directory /proj, used to run build on concrete inputs.
  All paths lie below /proj. The argument manifest is None when no directory has a
  manifest, and otherwise the \<^verbatim>\<open>type\<close> field of /proj/package.json; gname is the global
  binding of \<^verbatim>\<open>name\<close>; chunks is what the bundler writes. Styling leaves the text as it
  is and no collaborator fails.
\<close>

definition sample_runtime :: "string option option \<Rightarrow> string option \<Rightarrow> OutputChunk list \<Rightarrow> runtime" where
  "sample_runtime manifest gname chunks =
     \<lparr>path_basename = posix_basename,
      path_resolve = (\<lambda>d. ''/proj/'' @ d),
      path_relative = (\<lambda>from to. drop (length from + 1) to),
      path_sep = ''/'',
      process_cwd = ''/proj'',
      getPackageBoundarySync =
        (\<lambda>d. Inr (case manifest of None \<Rightarrow> None | Some t \<Rightarrow> Some ''/proj'')),
      readPackageConfigSync =
        (\<lambda>b. Inr \<lparr>pjson_type = (case manifest of None \<Rightarrow> None | Some t \<Rightarrow> t)\<rparr>),
      bold = (\<lambda>s. s),
      highlight = (\<lambda>s. s),
      replace_winSep = (\<lambda>s. s),
      global_name = gname,
      rollup_watch = (\<lambda>ro. None),
      rollup_rollup = (\<lambda>ro. None),
      bundle_write = (\<lambda>ro spec. Inr chunks),
      rimraf_sync = (\<lambda>d. None),
      mkdirp_sync = (\<lambda>d. None)\<rparr>"

text \<open>The options \<^verbatim>\<open>{ log: true, out: 'dist' }\<close>.\<close>

definition sample_opts :: BuildOptions where
  "sample_opts =
     \<lparr>log = True, projectPath = None, removeDir = None, env = None, sourcemap = None,
      mjs = None, out = Some ''dist'', format = None, external = None, globals = None,
      banner = None, showGraph = None, watch = None, target = None, inlineDeps = None\<rparr>"

text \<open>
  A chunk as the bundler reports it: main.js, importing two shared chunks, made of two
  source modules.
\<close>

definition sample_chunk :: OutputChunk where
  "sample_chunk =
     \<lparr>chunk_name = ''main.js'', chunk_imports = [''chunk-b.js'', ''chunk-a.js''],
      chunk_modules = [''/proj/src/util.js'', ''/proj/src/main.js'']\<rparr>"

section \<open>Properties\<close>

subsection \<open>What each block does to the extension and which effects it has\<close>

lemma default_format_format:
  "format (default_format opts) = Some (case format opts of None \<Rightarrow> Esm | Some f \<Rightarrow> f)"
  by (cases "format opts") (simp_all add: default_format_def)

lemma default_format_fields:
  "log (default_format opts) = log opts"
  "mjs (default_format opts) = mjs opts"
  "out (default_format opts) = out opts"
  "watch (default_format opts) = watch opts"
  "removeDir (default_format opts) = removeDir opts"
  "showGraph (default_format opts) = showGraph opts"
  by (simp_all add: default_format_def)

lemma default_format_eq:
  "default_format opts = opts\<lparr>format := Some (case format opts of None \<Rightarrow> Esm | Some f \<Rightarrow> f)\<rparr>"
  by (cases "format opts") (simp_all add: default_format_def)

lemma scan_module_ext:
  "fst (scan_module E opts st m) =
     (if format opts = Some Esm \<and> mjs opts = None \<and> endsWith m ''.mjs'' then ''.mjs'' else fst st)"
  by (simp add: scan_module_def Let_def)

lemma foldl_scan_ext:
  "fst (foldl (scan_module E opts) st ms) =
     (if format opts = Some Esm \<and> mjs opts = None \<and> (\<exists>m\<in>set ms. endsWith m ''.mjs'')
      then ''.mjs'' else fst st)"
proof (induction ms arbitrary: st)
  case Nil
  show ?case by simp
next
  case (Cons m ms)
  show ?case
    unfolding foldl_Cons Cons.IH scan_module_ext by auto
qed

lemma scan_inputs_ext:
  "fst (scan_inputs E opts e ms) =
     (if format opts = Some Esm \<and> mjs opts = None \<and> (\<exists>m\<in>set ms. endsWith m ''.mjs'')
      then ''.mjs'' else e)"
  unfolding scan_inputs_def foldl_scan_ext by auto

lemma package_boundary_skipped:
  "\<not> (format opts = Some Esm \<and> mjs opts = None \<and> e \<noteq> ''.mjs'') \<Longrightarrow>
     package_boundary E opts e = (None, e, [])"
  unfolding package_boundary_def by (rule if_not_P)

lemma package_boundary_ext:
  "fst (snd (package_boundary E opts e)) = e \<or> fst (snd (package_boundary E opts e)) = ''.mjs''"
  by (simp add: package_boundary_def Let_def split: option.splits sum.splits)

lemma package_boundary_effects:
  "x \<in> set (snd (snd (package_boundary E opts e))) \<Longrightarrow>
     (\<exists>d. x = GetPackageBoundarySync d) \<or> (\<exists>b. x = ReadPackageConfigSync b) \<or> (\<exists>s. x = UiWarn s)"
  by (auto simp: package_boundary_def Let_def split: option.splits sum.splits if_splits)

lemma graph_report_effects:
  "x \<in> set (snd (graph_report E cs)) \<Longrightarrow> \<exists>s. x = ConsoleLog s"
  by (induction cs) (auto simp: chunk_report_def Let_def split: option.splits)

lemma write_and_report_effects:
  "x \<in> set (snd (write_and_report E opts ro e)) \<Longrightarrow>
     x = BundleWrite (write_output opts e) \<or> (\<exists>s. x = UiOk s) \<or> (\<exists>s. x = ConsoleLog s)"
  by (auto simp: write_and_report_def Let_def split: sum.splits if_splits dest: graph_report_effects)

lemma one_shot_effects:
  "x \<in> set (snd (one_shot E opts ro e)) \<Longrightarrow>
     x = RollupRollup ro \<or> x = RimrafSync (out opts) \<or> x = MkdirpSync (out opts) \<or>
     x = BundleWrite (write_output opts e) \<or> (\<exists>s. x = UiOk s) \<or> (\<exists>s. x = ConsoleLog s)"
  by (auto simp: one_shot_def Let_def split: option.splits if_splits dest: write_and_report_effects)

lemma watch_mode_effects:
  "x \<in> set (snd (watch_mode E opts ro)) \<Longrightarrow>
     x = RollupWatch (ro\<lparr>rollup_output := Some (watch_output opts)\<rparr>) \<or> x = WatcherOn"
  by (auto simp: watch_mode_def Let_def split: option.splits)

lemma build_from_ext: "ext (build_from E opts e obj) = fst (snd (package_boundary E opts e))"
  by (simp add: build_from_def Let_def split: option.splits)

lemma build_from_opts: "opts_after (build_from E opts e obj) = opts"
  by (simp add: build_from_def Let_def split: option.splits)

lemma build_from_effects:
  "x \<in> set (effects (build_from E opts e obj)) \<Longrightarrow>
     x \<in> set (snd (snd (package_boundary E opts e))) \<or>
     (truthy (watch opts) \<and> x \<in> set (snd (watch_mode E opts (rollupOptions E opts obj)))) \<or>
     (\<not> truthy (watch opts) \<and>
      x \<in> set (snd (one_shot E opts (rollupOptions E opts obj) (ext (build_from E opts e obj)))))"
  by (auto simp: build_from_def Let_def split: option.splits if_splits)

lemma build_ext_list:
  "ms \<noteq> [] \<Longrightarrow>
     ext (build E (InputList ms) opts) =
       fst (snd (package_boundary E (default_format opts)
         (fst (scan_inputs E (default_format opts) (initial_ext (default_format opts)) ms))))"
  by (simp add: build_def Let_def build_from_ext)

lemma build_ext_record:
  "ext (build E (InputRecord obj) opts) =
     fst (snd (package_boundary E (default_format opts) (initial_ext (default_format opts))))"
  by (simp add: build_def Let_def build_from_ext)

lemma build_ext_empty: "ext (build E (InputList []) opts) = initial_ext (default_format opts)"
  by (simp add: build_def Let_def)

text \<open>
  Every effect of a call is the warning for an empty list, an effect of the boundary
  inspection, of the watch branch or of the one-shot branch; the one-shot branch runs
  with the extension the call ends with.
\<close>

lemma build_effects:
  assumes "x \<in> set (effects (build E input opts))"
  shows "x = UiWarn ''No inputs provided to build.'' \<or>
         (\<exists>e. x \<in> set (snd (snd (package_boundary E (default_format opts) e)))) \<or>
         (truthy (watch opts) \<and> (\<exists>ro. x \<in> set (snd (watch_mode E (default_format opts) ro)))) \<or>
         (\<not> truthy (watch opts) \<and>
          (\<exists>ro. x \<in> set (snd (one_shot E (default_format opts) ro (ext (build E input opts))))))"
proof (cases input)
  case (InputRecord obj)
  with assms show ?thesis
    by (auto simp: build_def Let_def default_format_fields dest!: build_from_effects)
next
  case (InputList ms)
  show ?thesis
  proof (cases "ms = []")
    case True
    with assms InputList show ?thesis by (simp add: build_def Let_def)
  next
    case False
    with assms InputList show ?thesis
      by (auto simp: build_def Let_def default_format_fields dest!: build_from_effects)
  qed
qed

lemma build_writes:
  assumes "BundleWrite spec \<in> set (effects (build E input opts))"
  shows "spec = write_output (default_format opts) (ext (build E input opts))"
  using build_effects [OF assms]
  by (auto dest: package_boundary_effects watch_mode_effects one_shot_effects)

lemma build_lookups:
  assumes "GetPackageBoundarySync d \<in> set (effects (build E input opts))"
  shows "\<exists>e. GetPackageBoundarySync d \<in> set (snd (snd (package_boundary E (default_format opts) e)))"
  using build_effects [OF assms]
  by (auto dest: watch_mode_effects one_shot_effects)

lemma build_nonempty:
  "input \<noteq> InputList [] \<Longrightarrow>
     \<exists>obj. build E input opts =
       build_from E (default_format opts)
         (case input of
            InputRecord ob \<Rightarrow> initial_ext (default_format opts)
          | InputList ms \<Rightarrow> fst (scan_inputs E (default_format opts) (initial_ext (default_format opts)) ms))
         obj"
  by (cases input) (auto simp: build_def Let_def)

lemma esm_default:
  "format opts = Some Esm \<or> format opts = None \<Longrightarrow> format (default_format opts) = Some Esm"
  by (auto simp: default_format_format)

lemma ext_before_boundary:
  assumes "format opts = Some Esm \<or> format opts = None" and "mjs opts = None"
  shows "(case input of
            InputRecord ob \<Rightarrow> initial_ext (default_format opts)
          | InputList ms \<Rightarrow> fst (scan_inputs E (default_format opts) (initial_ext (default_format opts)) ms))
       = (if \<exists>m\<in>set (list_paths input). endsWith m ''.mjs'' then ''.mjs'' else ''.js'')"
  using assms esm_default [OF assms(1)]
  by (cases input)
     (simp_all add: list_paths_def scan_inputs_ext initial_ext_def truthy_def default_format_fields)

lemma one_shot_no_lookup:
  "GetPackageBoundarySync d \<notin> set (snd (one_shot E opts ro e))"
  "UiWarn s \<notin> set (snd (one_shot E opts ro e))"
  by (auto dest: one_shot_effects)

lemma watch_mode_no_lookup:
  "GetPackageBoundarySync d \<notin> set (snd (watch_mode E opts ro))"
  "UiWarn s \<notin> set (snd (watch_mode E opts ro))"
  by (auto dest: watch_mode_effects)

lemma build_from_lookup:
  "GetPackageBoundarySync d \<in> set (effects (build_from E opts e obj)) \<longleftrightarrow>
   GetPackageBoundarySync d \<in> set (snd (snd (package_boundary E opts e)))"
  by (auto simp: build_from_def Let_def one_shot_no_lookup watch_mode_no_lookup split: option.splits)





lemma package_boundary_not_one_shot:
  "x \<in> set (snd (snd (package_boundary E opts e))) \<Longrightarrow> \<not> one_shot_effect x"
  by (auto dest: package_boundary_effects)

lemma watch_mode_not_one_shot:
  "x \<in> set (snd (watch_mode E opts ro)) \<Longrightarrow> \<not> one_shot_effect x"
  by (auto dest: watch_mode_effects)

lemma watch_mode_suspended:
  "RollupWatch ro' \<in> set (snd (watch_mode E opts ro)) \<Longrightarrow> rollup_watch E ro' = None \<Longrightarrow>
     fst (watch_mode E opts ro) = Suspended \<and>
     snd (watch_mode E opts ro) = [RollupWatch ro', WatcherOn]"
  by (auto simp: watch_mode_def Let_def split: option.splits)

lemma build_from_watch:
  assumes "truthy (watch opts)"
  shows "build_from E opts e obj =
     (let b = package_boundary E opts e
      in case fst b of
           Some err \<Rightarrow> \<lparr>outcome = Threw err, effects = snd (snd b), ext = fst (snd b),
                        opts_after = opts\<rparr>
         | None \<Rightarrow> \<lparr>outcome = fst (watch_mode E opts (rollupOptions E opts obj)),
                    effects = snd (snd b) @ snd (watch_mode E opts (rollupOptions E opts obj)),
                    ext = fst (snd b), opts_after = opts\<rparr>)"
  using assms by (simp add: build_from_def Let_def split: option.splits)

lemma watcher_specification:
  assumes "RollupWatch ro \<in> set (effects (build E input opts))"
  shows "rollup_output ro = Some (watch_output (default_format opts)) \<and>
         entryFileNames (watch_output (default_format opts)) = None \<and>
         chunkFileNames (watch_output (default_format opts)) = None"
  using build_effects [OF assms]
  by (auto simp: watch_output_def dest: package_boundary_effects watch_mode_effects one_shot_effects)

text \<open>
  The listener ignores the first event; later it reports the start and the end of a
  rebuild.
\<close>

lemma on_event_first: "on_event E opts True code = (False, [])"
  by (simp add: on_event_def)

lemma on_event_later:
  "on_event E opts False BUNDLE_START = (False, [UiInfo ''Rebuilding...''])"
  "on_event E opts False BUNDLE_END = (False, [UiOk (''Built into '' @ bold E (js_string (out opts)))])"
  "on_event E opts False OTHER_CODE = (False, [])"
  by (simp_all add: on_event_def)

text \<open>The header of a chunk in the graph summary does not depend on the name of the chunk.\<close>

lemma chunk_report_ignores_chunk_name:
  "chunk_report E nm (entry\<lparr>chunk_name := n\<rparr>) = chunk_report E nm entry"
  by (simp add: chunk_report_def)

subsection \<open>The names that a list input gets\<close>

lemma string_of_nat_0: "string_of_nat 0 = ''0''"
  by code_simp

lemma unused_name_keeps: "\<not> js_in nm obj \<Longrightarrow> unused_name obj b nm i = nm"
  by (subst unused_name.simps) simp

lemma unused_name_next:
  "js_in nm obj \<Longrightarrow> unused_name obj b nm i = unused_name obj b (b @ string_of_nat i) (i + 1)"
  by (subst unused_name.simps) simp

lemma unused_name_free: "\<not> js_in (unused_name obj b nm i) obj"
proof (induction obj b nm i rule: unused_name.induct)
  case (1 inputObj basename inputName i)
  show ?case
  proof (cases "js_in inputName inputObj")
    case True
    with "1.IH" show ?thesis by (simp add: unused_name_next)
  next
    case False
    then show ?thesis by (simp add: unused_name_keeps)
  qed
qed


lemma js_assign_new: "k \<notin> set (map fst obj) \<Longrightarrow> js_assign obj k v = obj @ [(k, v)]"
  by (induction obj) auto

lemma scan_module_snd:
  "snd (scan_module E opts st m) =
     snd st @ [(unused_name (snd st) (entry_basename E m) (entry_basename E m) 0, m)]"
proof -
  have "unused_name (snd st) (entry_basename E m) (entry_basename E m) 0 \<notin> set (map fst (snd st))"
    using unused_name_free [of "snd st" "entry_basename E m" "entry_basename E m" 0]
    by (simp add: js_in_def)
  then show ?thesis by (simp add: scan_module_def Let_def js_assign_new)
qed

text \<open>
  The scan makes one entry per input, created in the order of the inputs, and no two
  entries have the same name. The first input keeps its candidate name when no property of that name
  is inherited.
\<close>

lemma scan_paths: "map snd (snd (foldl (scan_module E opts) st ms)) = map snd (snd st) @ ms"
  by (induction ms arbitrary: st) (simp_all add: scan_module_snd)


lemma scan_inputs_paths: "map snd (snd (scan_inputs E opts e ms)) = ms"
  by (simp add: scan_inputs_def scan_paths)

lemma scan_inputs_length: "length (snd (scan_inputs E opts e ms)) = length ms"
  using scan_inputs_paths [of E opts e ms] by (metis length_map)


lemma scan_extends: "\<exists>new. snd (foldl (scan_module E opts) st ms) = snd st @ new"
proof (induction ms arbitrary: st)
  case Nil
  show ?case by simp
next
  case (Cons m ms)
  from Cons.IH [of "scan_module E opts st m"]
  obtain new where "snd (foldl (scan_module E opts) (scan_module E opts st m) ms) =
      snd (scan_module E opts st m) @ new"
    by blast
  then have "snd (foldl (scan_module E opts) st (m # ms)) =
      snd st @ ((unused_name (snd st) (entry_basename E m) (entry_basename E m) 0, m) # new)"
    by (simp add: scan_module_snd)
  then show ?case by blast
qed

lemma scan_inputs_first:
  assumes "\<not> js_in (entry_basename E m) []"
  shows "hd (snd (scan_inputs E opts e (m # ms))) = (entry_basename E m, m)"
proof -
  from scan_extends [of E opts "scan_module E opts (e, []) m" ms]
  obtain new where
    "snd (foldl (scan_module E opts) (scan_module E opts (e, []) m) ms) =
       snd (scan_module E opts (e, []) m) @ new"
    by blast
  with assms show ?thesis
    by (simp add: scan_inputs_def scan_module_snd unused_name_keeps)
qed







subsection \<open>The write of a call that returns, the text of the warning, the input of the bundler\<close>










text \<open>Unfolding build on a concrete input.\<close>

lemmas run_simps =
  build_def build_from_def default_format_def initial_ext_def truthy_def truthy_string_def
  js_string_def scan_inputs_def scan_module_def entry_basename_def substr0_def
  unused_name.simps js_in_def object_prototype_keys_def endsWith_def startsWith_def
  package_boundary_def boundary_warning_def rollupOptions_def watch_mode_def watch_output_def
  one_shot_def write_and_report_def write_output_def chunk_report_def
  sample_runtime_def sample_opts_def posix_basename_def Let_def

subsection \<open>The empty list\<close>

text \<open>
  Claim C5. When the inputs are an empty sequence, build prints the warning
  "No inputs provided to build." and returns: the call ends by returning, not by an
  exception, and the warning is its only effect, so the bundler is not invoked and no
  file or directory is written or removed.
\<close>

theorem empty_list_returns:
  "outcome (build E (InputList []) opts) = Returned \<and>
   effects (build E (InputList []) opts) = [UiWarn ''No inputs provided to build.'']"
  by (simp add: build_def Let_def)

theorem empty_list_returns_witness:
  "outcome (build (sample_runtime (Some None) None []) (InputList []) sample_opts) = Returned \<and>
   effects (build (sample_runtime (Some None) None []) (InputList []) sample_opts) =
     [UiWarn ''No inputs provided to build.'']"
  using empty_list_returns [of "sample_runtime (Some None) None []" sample_opts] by simp

subsection \<open>The caller's options\<close>

text \<open>
  Called with options that have no \<^verbatim>\<open>format\<close>, build leaves \<^verbatim>\<open>format: 'esm'\<close> in the
  caller's object (lines 47-48).
\<close>

theorem format_default_written_back:
  "format sample_opts = None \<and>
   format (opts_after (build (sample_runtime (Some None) None []) (InputList [''src/app.js''])
     sample_opts)) = Some Esm"
  by (simp add: run_simps)

text \<open>
  Claim C7, amended. build changes no field of the caller's options other than
  \<^verbatim>\<open>format\<close>; \<^verbatim>\<open>format\<close> keeps the value the caller gave, and is set to esm when the
  caller gave none. This holds however the call ends.
\<close>

theorem options_frame:
  "opts_after (build E input opts) =
     opts\<lparr>format := Some (case format opts of None \<Rightarrow> Esm | Some f \<Rightarrow> f)\<rparr>"
proof (cases input)
  case (InputList ms)
  then show ?thesis
    by (simp add: build_def Let_def build_from_opts default_format_eq)
next
  case (InputRecord obj)
  then show ?thesis
    by (simp add: build_def Let_def build_from_opts default_format_eq)
qed

theorem options_frame_witness:
  "opts_after (build (sample_runtime (Some None) None []) (InputList [''src/app.js''])
     (sample_opts\<lparr>format := Some Cjs\<rparr>)) = sample_opts\<lparr>format := Some Cjs\<rparr> \<and>
   opts_after (build (sample_runtime (Some None) None []) (InputList [''src/app.js''])
     sample_opts) = sample_opts\<lparr>format := Some Esm\<rparr>"
  using options_frame [of "sample_runtime (Some None) None []" "InputList [''src/app.js'']"
      "sample_opts\<lparr>format := Some Cjs\<rparr>"]
    options_frame [of "sample_runtime (Some None) None []" "InputList [''src/app.js'']" sample_opts]
  by (simp add: sample_opts_def)

subsection \<open>Formats other than esm\<close>

text \<open>
  With \<^verbatim>\<open>format: 'cjs'\<close> and \<^verbatim>\<open>mjs: true\<close> the extension is .mjs (line 50), and the bundle
  is written with \<^verbatim>\<open>[name].mjs\<close>.
\<close>

theorem cjs_with_mjs_flag:
  "ext (build (sample_runtime (Some (Some ''module'')) None []) (InputList [''src/app.js''])
     (sample_opts\<lparr>format := Some Cjs, mjs := Some True\<rparr>)) = ''.mjs'' \<and>
   BundleWrite (write_output (sample_opts\<lparr>format := Some Cjs, mjs := Some True\<rparr>) ''.mjs'')
     \<in> set (effects (build (sample_runtime (Some (Some ''module'')) None [])
          (InputList [''src/app.js'']) (sample_opts\<lparr>format := Some Cjs, mjs := Some True\<rparr>))) \<and>
   entryFileNames (write_output (sample_opts\<lparr>format := Some Cjs, mjs := Some True\<rparr>) ''.mjs'')
     = Some ''[name].mjs''"
  by (simp add: run_simps)

text \<open>
  Claim C2, amended. For every build call with a format other than esm, the extension is
  .mjs when \<^verbatim>\<open>options.mjs\<close> is true and .js otherwise, whatever the inputs are called
  and whatever a manifest says: the package boundary is not inspected, and a bundle that
  is written gets its entry and chunk file names with this extension.
\<close>

theorem non_esm_extension:
  assumes "format opts = Some f" and "f \<noteq> Esm"
  shows "ext (build E input opts) = (if mjs opts = Some True then ''.mjs'' else ''.js'') \<and>
         (\<forall>d. GetPackageBoundarySync d \<notin> set (effects (build E input opts))) \<and>
         (\<forall>spec. BundleWrite spec \<in> set (effects (build E input opts)) \<longrightarrow>
            entryFileNames spec = Some (''[name]'' @ ext (build E input opts)) \<and>
            chunkFileNames spec = Some (''chunk-[hash]'' @ ext (build E input opts)))"
proof -
  let ?opts = "default_format opts"
  from assms have fmt: "format ?opts \<noteq> Some Esm"
    by (simp add: default_format_format)
  have skip: "package_boundary E ?opts e = (None, e, [])" for e
    using fmt by (intro package_boundary_skipped) simp
  have scan: "fst (scan_inputs E ?opts e ms) = e" for e ms
    using fmt by (simp add: scan_inputs_ext)
  have "ext (build E input opts) = initial_ext ?opts"
  proof (cases input)
    case (InputRecord obj)
    then show ?thesis by (simp add: build_ext_record skip)
  next
    case (InputList ms)
    then show ?thesis
      by (cases "ms = []") (simp_all add: build_ext_empty build_ext_list skip scan)
  qed
  then have e: "ext (build E input opts) = (if mjs opts = Some True then ''.mjs'' else ''.js'')"
    by (simp add: initial_ext_def truthy_def default_format_fields)
  have l: "GetPackageBoundarySync d \<notin> set (effects (build E input opts))" for d
    using build_lookups [of d E input opts] by (auto simp: skip)
  have w: "entryFileNames spec = Some (''[name]'' @ ext (build E input opts)) \<and>
           chunkFileNames spec = Some (''chunk-[hash]'' @ ext (build E input opts))"
    if "BundleWrite spec \<in> set (effects (build E input opts))" for spec
    using build_writes [OF that] by (simp add: write_output_def)
  from e l w show ?thesis by blast
qed

theorem non_esm_extension_witness:
  "format (sample_opts\<lparr>format := Some Cjs\<rparr>) = Some Cjs \<and> Cjs \<noteq> Esm \<and>
   ext (build (sample_runtime (Some None) None []) (InputList [''src/app.mjs''])
     (sample_opts\<lparr>format := Some Cjs\<rparr>)) = ''.js'' \<and>
   BundleWrite (write_output (sample_opts\<lparr>format := Some Cjs\<rparr>) ''.js'')
     \<in> set (effects (build (sample_runtime (Some None) None []) (InputList [''src/app.mjs''])
          (sample_opts\<lparr>format := Some Cjs\<rparr>))) \<and>
   entryFileNames (write_output (sample_opts\<lparr>format := Some Cjs\<rparr>) ''.js'') = Some ''[name].js''"
  using non_esm_extension [of "sample_opts\<lparr>format := Some Cjs\<rparr>" Cjs
      "sample_runtime (Some None) None []" "InputList [''src/app.mjs'']"]
  by (simp add: run_simps)

subsection \<open>The esm format without the mjs option\<close>




text \<open>
  Claim C6. For every build call with format esm (given, or taken by default) and no
  \<^verbatim>\<open>mjs\<close> key in the options, if some path of a list input ends in .mjs, then the
  extension of the whole build is .mjs, the package boundary is not inspected, and a
  bundle that is written gets .mjs in the name pattern of every entry and of every chunk,
  not only for the input that ends in .mjs.
\<close>

theorem mjs_input_decides_for_all:
  assumes esm: "format opts = Some Esm \<or> format opts = None"
    and nomjs: "mjs opts = None"
    and m: "m \<in> set ms" "endsWith m ''.mjs''"
  shows "ext (build E (InputList ms) opts) = ''.mjs'' \<and>
         (\<forall>d. GetPackageBoundarySync d \<notin> set (effects (build E (InputList ms) opts))) \<and>
         (\<forall>spec. BundleWrite spec \<in> set (effects (build E (InputList ms) opts)) \<longrightarrow>
            entryFileNames spec = Some ''[name].mjs'' \<and>
            chunkFileNames spec = Some ''chunk-[hash].mjs'')"
proof -
  let ?opts = "default_format opts"
  let ?r = "build E (InputList ms) opts"
  from m have "InputList ms \<noteq> InputList []" by auto
  moreover from m have "\<exists>m\<in>set (list_paths (InputList ms)). endsWith m ''.mjs''"
    by (auto simp: list_paths_def)
  ultimately obtain obj where run: "?r = build_from E ?opts ''.mjs'' obj"
    using build_nonempty [of "InputList ms" E opts]
      ext_before_boundary [OF esm nomjs, where input = "InputList ms" and E = E]
    by auto
  have skip: "package_boundary E ?opts ''.mjs'' = (None, ''.mjs'', [])"
    by (intro package_boundary_skipped) simp
  have e: "ext ?r = ''.mjs''"
    by (simp add: run build_from_ext skip)
  have l: "GetPackageBoundarySync d \<notin> set (effects ?r)" for d
    by (simp add: run build_from_lookup skip)
  have w: "entryFileNames spec = Some ''[name].mjs'' \<and> chunkFileNames spec = Some ''chunk-[hash].mjs''"
    if "BundleWrite spec \<in> set (effects ?r)" for spec
    using build_writes [OF that] by (simp add: write_output_def e)
  from e l w show ?thesis by blast
qed

theorem mjs_input_decides_for_all_witness:
  "format sample_opts = None \<and> mjs sample_opts = None \<and>
   ''src/b.mjs'' \<in> set [''src/a.js'', ''src/b.mjs''] \<and> endsWith ''src/b.mjs'' ''.mjs'' \<and>
   ext (build (sample_runtime (Some None) None []) (InputList [''src/a.js'', ''src/b.mjs''])
     sample_opts) = ''.mjs'' \<and>
   GetPackageBoundarySync ''/proj/dist/''
     \<notin> set (effects (build (sample_runtime (Some None) None [])
          (InputList [''src/a.js'', ''src/b.mjs'']) sample_opts)) \<and>
   BundleWrite (write_output (sample_opts\<lparr>format := Some Esm\<rparr>) ''.mjs'')
     \<in> set (effects (build (sample_runtime (Some None) None [])
          (InputList [''src/a.js'', ''src/b.mjs'']) sample_opts)) \<and>
   entryFileNames (write_output (sample_opts\<lparr>format := Some Esm\<rparr>) ''.mjs'') = Some ''[name].mjs'' \<and>
   chunkFileNames (write_output (sample_opts\<lparr>format := Some Esm\<rparr>) ''.mjs'')
     = Some ''chunk-[hash].mjs''"
proof -
  let ?I = "InputList [''src/a.js'', ''src/b.mjs'']"
  let ?R = "sample_runtime (Some None) None []"
  have esm: "format sample_opts = Some Esm \<or> format sample_opts = None"
    and nomjs: "mjs sample_opts = None"
    and m: "''src/b.mjs'' \<in> set [''src/a.js'', ''src/b.mjs'']" "endsWith ''src/b.mjs'' ''.mjs''"
    by (simp_all add: sample_opts_def endsWith_def)
  have given: "format sample_opts = None"
    by (simp add: sample_opts_def)
  have written: "BundleWrite (write_output (sample_opts\<lparr>format := Some Esm\<rparr>) ''.mjs'')
      \<in> set (effects (build ?R ?I sample_opts))"
    by (simp add: run_simps)
  note claim = mjs_input_decides_for_all [OF esm nomjs m, where E = ?R]
  from claim have e: "ext (build ?R ?I sample_opts) = ''.mjs''"
    by (rule conjunct1)
  from claim have l: "GetPackageBoundarySync ''/proj/dist/'' \<notin> set (effects (build ?R ?I sample_opts))"
    by blast
  from claim written
  have n: "entryFileNames (write_output (sample_opts\<lparr>format := Some Esm\<rparr>) ''.mjs'')
             = Some ''[name].mjs'' \<and>
           chunkFileNames (write_output (sample_opts\<lparr>format := Some Esm\<rparr>) ''.mjs'')
             = Some ''chunk-[hash].mjs''"
    by blast
  from given nomjs m e l written n show ?thesis by blast
qed

subsection \<open>Watch mode\<close>

text \<open>
  Claim C9. For every build call with \<^verbatim>\<open>options.watch\<close> true: once the watcher is
  started (the call of \<^verbatim>\<open>rollup.watch\<close> is among the effects and did not fail), the call
  is suspended, and starting the watcher and registering the listener are its last
  effects. No effect of the one-shot path (the one-shot call of the bundler, removing
  and creating the directory, the write, the success message, the graph summary) occurs
  in a call with \<^verbatim>\<open>watch\<close> true.
\<close>

theorem watch_call_suspends:
  assumes "truthy (watch opts)"
  shows "(RollupWatch ro \<in> set (effects (build E input opts)) \<and> rollup_watch E ro = None \<longrightarrow>
            outcome (build E input opts) = Suspended \<and>
            (\<exists>before. effects (build E input opts) = before @ [RollupWatch ro, WatcherOn])) \<and>
         (\<forall>x\<in>set (effects (build E input opts)). \<not> one_shot_effect x)"
proof (cases "input = InputList []")
  case True
  then show ?thesis by (simp add: build_def Let_def)
next
  case False
  let ?opts = "default_format opts"
  from assms have w: "truthy (watch ?opts)" by (simp add: default_format_fields)
  from build_nonempty [OF False, of E opts]
  obtain e obj where run: "build E input opts = build_from E ?opts e obj"
    by blast
  let ?b = "package_boundary E ?opts e"
  let ?w = "watch_mode E ?opts (rollupOptions E ?opts obj)"
  show ?thesis
  proof (cases "fst ?b")
    case (Some err)
    then have eff: "effects (build E input opts) = snd (snd ?b)"
      by (simp add: run build_from_watch [OF w] Let_def)
    have "RollupWatch ro \<notin> set (snd (snd ?b))"
      by (auto dest: package_boundary_effects)
    with eff show ?thesis by (auto dest: package_boundary_not_one_shot)
  next
    case None
    then have eff: "effects (build E input opts) = snd (snd ?b) @ snd ?w"
      and out: "outcome (build E input opts) = fst ?w"
      by (simp_all add: run build_from_watch [OF w] Let_def)
    have nb: "RollupWatch ro \<notin> set (snd (snd ?b))"
      by (auto dest: package_boundary_effects)
    have "outcome (build E input opts) = Suspended \<and>
          (\<exists>before. effects (build E input opts) = before @ [RollupWatch ro, WatcherOn])"
      if "RollupWatch ro \<in> set (effects (build E input opts))" and "rollup_watch E ro = None"
    proof -
      from that(1) nb have "RollupWatch ro \<in> set (snd ?w)" by (simp add: eff)
      from watch_mode_suspended [OF this that(2)] show ?thesis by (simp add: eff out)
    qed
    moreover have "\<not> one_shot_effect x" if "x \<in> set (effects (build E input opts))" for x
      using that by (auto simp: eff dest: package_boundary_not_one_shot watch_mode_not_one_shot)
    ultimately show ?thesis by blast
  qed
qed

theorem watch_call_suspends_witness:
  "truthy (watch (sample_opts\<lparr>watch := Some True\<rparr>)) \<and>
   rollup_watch (sample_runtime (Some (Some ''module'')) None [])
     ((rollupOptions (sample_runtime (Some (Some ''module'')) None [])
        (sample_opts\<lparr>watch := Some True, format := Some Esm\<rparr>) [(''app'', ''src/app.js'')])
      \<lparr>rollup_output := Some (watch_output (sample_opts\<lparr>watch := Some True, format := Some Esm\<rparr>))\<rparr>)
     = None \<and>
   outcome (build (sample_runtime (Some (Some ''module'')) None []) (InputList [''src/app.js''])
     (sample_opts\<lparr>watch := Some True\<rparr>)) = Suspended \<and>
   effects (build (sample_runtime (Some (Some ''module'')) None []) (InputList [''src/app.js''])
     (sample_opts\<lparr>watch := Some True\<rparr>)) =
     [GetPackageBoundarySync ''/proj/dist/'', ReadPackageConfigSync ''/proj'',
      RollupWatch ((rollupOptions (sample_runtime (Some (Some ''module'')) None [])
        (sample_opts\<lparr>watch := Some True, format := Some Esm\<rparr>) [(''app'', ''src/app.js'')])
      \<lparr>rollup_output := Some (watch_output (sample_opts\<lparr>watch := Some True, format := Some Esm\<rparr>))\<rparr>),
      WatcherOn]"
proof -
  let ?R = "sample_runtime (Some (Some ''module'')) None []"
  let ?I = "InputList [''src/app.js'']"
  let ?O = "sample_opts\<lparr>watch := Some True\<rparr>"
  let ?ro = "(rollupOptions ?R (sample_opts\<lparr>watch := Some True, format := Some Esm\<rparr>)
                [(''app'', ''src/app.js'')])
      \<lparr>rollup_output := Some (watch_output (sample_opts\<lparr>watch := Some True, format := Some Esm\<rparr>))\<rparr>"
  have w: "truthy (watch ?O)" by (simp add: truthy_def)
  have ok: "rollup_watch ?R ?ro = None" by (simp add: sample_runtime_def)
  have eff: "effects (build ?R ?I ?O) =
     [GetPackageBoundarySync ''/proj/dist/'', ReadPackageConfigSync ''/proj'', RollupWatch ?ro,
      WatcherOn]"
    by (simp add: run_simps)
  then have started: "RollupWatch ?ro \<in> set (effects (build ?R ?I ?O))" by simp
  from watch_call_suspends [OF w, of ?ro ?R ?I] started ok
  have "outcome (build ?R ?I ?O) = Suspended" by blast
  with w ok eff show ?thesis by blast
qed

text \<open>
  Claim C3 says that the watcher gets the entry and chunk file naming of one-shot mode.
  On the call \<^verbatim>\<open>build(['src/app.mjs'], { log: true, out: 'dist', watch: true })\<close> the
  extension is resolved to .mjs, but the output specification in the options of the
  watcher has neither \<^verbatim>\<open>entryFileNames\<close> nor \<^verbatim>\<open>chunkFileNames\<close>, while the
  specification that one-shot mode writes with has \<^verbatim>\<open>[name].mjs\<close>.
\<close>

theorem watcher_gets_no_file_names:
  "ext (build (sample_runtime (Some None) None []) (InputList [''src/app.mjs''])
     (sample_opts\<lparr>watch := Some True\<rparr>)) = ''.mjs'' \<and>
   effects (build (sample_runtime (Some None) None []) (InputList [''src/app.mjs''])
     (sample_opts\<lparr>watch := Some True\<rparr>)) =
     [RollupWatch ((rollupOptions (sample_runtime (Some None) None [])
        (sample_opts\<lparr>watch := Some True, format := Some Esm\<rparr>) [(''app'', ''src/app.mjs'')])
      \<lparr>rollup_output := Some (watch_output (sample_opts\<lparr>watch := Some True, format := Some Esm\<rparr>))\<rparr>),
      WatcherOn] \<and>
   entryFileNames (watch_output (sample_opts\<lparr>watch := Some True, format := Some Esm\<rparr>)) = None \<and>
   chunkFileNames (watch_output (sample_opts\<lparr>watch := Some True, format := Some Esm\<rparr>)) = None \<and>
   entryFileNames (write_output (sample_opts\<lparr>watch := Some True, format := Some Esm\<rparr>) ''.mjs'')
     = Some ''[name].mjs''"
  by (simp add: run_simps)

subsection \<open>The graph summary\<close>

text \<open>
  Claim C8 says that the header of each chunk shows the chunk's own name. On the call
  \<^verbatim>\<open>build(['src/main.js'], { log: true, out: 'dist', showGraph: true })\<close> whose bundle is
  the one chunk main.js, line 152 reads the free identifier \<^verbatim>\<open>name\<close>: without a global
  of that name the call ends with a ReferenceError before any header is printed, and
  with a global \<^verbatim>\<open>name = 'window'\<close> the header reads window, not main.js. The imports
  are sorted and joined, the module paths are relative and a blank line ends the chunk.
\<close>

theorem graph_header_uses_global_name:
  "outcome (build (sample_runtime (Some (Some ''module'')) None [sample_chunk])
     (InputList [''src/main.js'']) (sample_opts\<lparr>showGraph := Some True\<rparr>))
     = Threw (ReferenceError ''name is not defined'') \<and>
   effects (build (sample_runtime (Some (Some ''module'')) (Some ''window'') [sample_chunk])
     (InputList [''src/main.js'']) (sample_opts\<lparr>showGraph := Some True\<rparr>)) =
     [GetPackageBoundarySync ''/proj/dist/'', ReadPackageConfigSync ''/proj'',
      RollupRollup (rollupOptions (sample_runtime (Some (Some ''module'')) (Some ''window'') [sample_chunk])
        (sample_opts\<lparr>showGraph := Some True, format := Some Esm\<rparr>) [(''main'', ''src/main.js'')]),
      BundleWrite (write_output (sample_opts\<lparr>showGraph := Some True, format := Some Esm\<rparr>) ''.js''),
      UiOk ''Built into dist/'',
      ConsoleLog [],
      ConsoleLog ''window imports chunk-a.js, chunk-b.js:'',
      ConsoleLog ''  src/main.js'',
      ConsoleLog ''  src/util.js'',
      ConsoleLog []]"
  by (simp add: run_simps sample_chunk_def)

subsection \<open>Entry names\<close>

lemma shared_base_names:
  "snd (scan_inputs (sample_runtime (Some None) None []) (sample_opts\<lparr>format := Some Esm\<rparr>) ''.js''
     [''a/foo.js'', ''b/foo.js'']) = [(''foo'', ''a/foo.js''), (''foo0'', ''b/foo.js'')]"
  by (simp add: run_simps string_of_nat_0)

text \<open>
  Claim C4 says that the first input keeps its bare base name. On the call
  \<^verbatim>\<open>build(['lib/constructor.js'], { log: true, out: 'dist' })\<close> the test
  \<^verbatim>\<open>inputName in inputObj\<close> of line 69 holds for the inherited property constructor of
  the empty object, so the only input is given to the bundler under the name
  constructor0.
\<close>

theorem inherited_name_is_taken:
  "snd (scan_inputs (sample_runtime (Some None) None []) (sample_opts\<lparr>format := Some Esm\<rparr>) ''.js''
     [''lib/constructor.js'']) = [(''constructor0'', ''lib/constructor.js'')] \<and>
   rollup_input (rollupOptions (sample_runtime (Some None) None [])
     (sample_opts\<lparr>format := Some Esm\<rparr>) [(''constructor0'', ''lib/constructor.js'')])
     = [(''constructor0'', ''lib/constructor.js'')] \<and>
   RollupRollup (rollupOptions (sample_runtime (Some None) None [])
     (sample_opts\<lparr>format := Some Esm\<rparr>) [(''constructor0'', ''lib/constructor.js'')])
     \<in> set (effects (build (sample_runtime (Some None) None []) (InputList [''lib/constructor.js''])
          sample_opts))"
  by (simp add: run_simps string_of_nat_0)




end
